theory Spec2Isabelle
  imports Complex_Main "HOL-Library.Sublist"
begin

section \<open>Python strings\<close>

text \<open>
  A Python \<open>str\<close> is modelled as a \<open>string\<close>, the list of the bytes of its UTF-8 encoding.
  Every keyword the function looks for is ASCII, and an ASCII byte never occurs inside the
  encoding of another code point, so a substring test for such a keyword gives the same
  answer on bytes as on code points.

  \<open>str.lower\<close> is modelled on the 26 ASCII capitals; every other byte is kept. (Python
  also lowers non-ASCII letters; the only ASCII letters it can produce from them are
  \<open>k\<close>, from the Kelvin sign, and \<open>i\<close> followed by a combining dot, from the dotted
  capital I. No keyword below contains \<open>k\<close>, and in none of them is \<open>i\<close> followed by a
  non-ASCII character.)
\<close>

definition ascii_uppercase :: string where
  "ascii_uppercase = ''ABCDEFGHIJKLMNOPQRSTUVWXYZ''"

definition ascii_lowercase :: string where
  "ascii_lowercase = ''abcdefghijklmnopqrstuvwxyz''"

definition lower_char :: "char \<Rightarrow> char" where
  "lower_char c =
     (case map_of (zip ascii_uppercase ascii_lowercase) c of Some d \<Rightarrow> d | None \<Rightarrow> c)"

definition lower :: "string \<Rightarrow> string" where
  "lower s = map lower_char s"

text \<open>\<open>k in s\<close> on two strings: \<open>k\<close> occurs in \<open>s\<close> as a contiguous block.\<close>

fun str_in :: "string \<Rightarrow> string \<Rightarrow> bool" where
  "str_in k [] = (k = [])"
| "str_in k (c # cs) = (prefix k (c # cs) \<or> str_in k cs)"

definition startswith :: "string \<Rightarrow> string \<Rightarrow> bool" where
  "startswith s p = prefix p s"

definition endswith :: "string \<Rightarrow> string \<Rightarrow> bool" where
  "endswith s p = prefix (rev p) (rev s)"

section \<open>\<open>os.path\<close> on POSIX\<close>

text \<open>
  \<open>os.path.join(a, *p)\<close> as \<open>posixpath\<close> defines it: a component that starts with the
  separator replaces everything joined so far; otherwise it is appended, with a separator
  unless the path so far is empty or already ends with one.
\<close>

definition sep :: string where
  "sep = ''/''"

definition join_step :: "string \<Rightarrow> string \<Rightarrow> string" where
  "join_step path b =
     (if startswith b sep then b
      else if path = [] \<or> endswith path sep then path @ b
      else path @ sep @ b)"

definition path_join :: "string \<Rightarrow> string list \<Rightarrow> string" where
  "path_join a p = foldl join_step a p"

section \<open>\<open>datetime\<close>\<close>

record datetime =
  year :: nat
  month :: nat
  day :: nat
  hour :: nat
  minute :: nat
  second :: nat

definition digit :: "nat \<Rightarrow> char" where
  "digit n = ''0123456789'' ! (n mod 10)"

definition zpad2 :: "nat \<Rightarrow> string" where
  "zpad2 n = [digit (n div 10), digit n]"

definition zpad4 :: "nat \<Rightarrow> string" where
  "zpad4 n = [digit (n div 1000), digit (n div 100), digit (n div 10), digit n]"

text \<open>
  The directives of \<open>strftime\<close> that the function uses: each field as a zero-padded
  decimal number, the year on four digits and the others on two. (A \<open>datetime\<close> has
  \<open>1 \<le> year \<le> 9999\<close>, \<open>month \<le> 12\<close> and so on, so that no digit is lost; the C
  library decides whether a year below 1000 is padded, and the clock does not return one.)
  Any other directive is copied as it is.
\<close>

definition directive :: "datetime \<Rightarrow> char \<Rightarrow> string" where
  "directive d c =
     (if c = CHR ''Y'' then zpad4 (year d)
      else if c = CHR ''m'' then zpad2 (month d)
      else if c = CHR ''d'' then zpad2 (day d)
      else if c = CHR ''H'' then zpad2 (hour d)
      else if c = CHR ''M'' then zpad2 (minute d)
      else if c = CHR ''S'' then zpad2 (second d)
      else [CHR ''%'', c])"

fun strftime :: "datetime \<Rightarrow> string \<Rightarrow> string" where
  "strftime d [] = []"
| "strftime d [c] = [c]"
| "strftime d (c # c' # cs) =
     (if c = CHR ''%'' then directive d c' @ strftime d cs
      else c # strftime d (c' # cs))"

section \<open>The file system\<close>

text \<open>
  Directories and other files are recorded under the path string they were created with;
  \<open>readonly\<close> lists the directories in which nothing can be created, the empty string
  standing for the current directory. A path made only of separators is the root. The
  model does not resolve \<open>.\<close>, \<open>..\<close>, repeated separators or symbolic links: two spellings
  of one directory are two entries. It is exact on the paths made of plain names, names
  other than \<open>.\<close> and \<open>..\<close>, joined by single separators; these are the paths that
  \<open>standard_callbacks\<close> makes from a run name without separator (\<open>creation_paths\<close>
  below), and the properties of the creation of the directories are stated for such run
  names.
\<close>

datatype os_error =
    FileExistsError string
  | FileNotFoundError string
  | NotADirectoryError string
  | PermissionError string

record filesystem =
  dirs :: "string list"
  files :: "string list"
  readonly :: "string list"

definition is_root :: "string \<Rightarrow> bool" where
  "is_root p = (p \<noteq> [] \<and> list_all (\<lambda>c. c = CHR ''/'') p)"

definition path_isdir :: "filesystem \<Rightarrow> string \<Rightarrow> bool" where
  "path_isdir fs p = (is_root p \<or> p \<in> set (dirs fs))"

definition path_exists :: "filesystem \<Rightarrow> string \<Rightarrow> bool" where
  "path_exists fs p = (path_isdir fs p \<or> p \<in> set (files fs))"

text \<open>
  \<open>posixpath.split\<close>: the tail is what follows the last separator; the head is what
  precedes it, without its trailing separators unless it is the root.
\<close>

definition rstrip_sep :: "string \<Rightarrow> string" where
  "rstrip_sep s = rev (dropWhile (\<lambda>c. c = CHR ''/'') (rev s))"

definition path_split :: "string \<Rightarrow> string \<times> string" where
  "path_split p =
     (let head = rev (dropWhile (\<lambda>c. c \<noteq> CHR ''/'') (rev p));
          tail = rev (takeWhile (\<lambda>c. c \<noteq> CHR ''/'') (rev p))
      in (if head \<noteq> [] \<and> \<not> is_root head then rstrip_sep head else head, tail))"

text \<open>
  \<open>os.mkdir\<close>: creates one directory in an existing, writable parent directory, and
  fails when the name is taken.
\<close>

definition mkdir :: "string \<Rightarrow> filesystem \<Rightarrow> os_error + filesystem" where
  "mkdir name fs =
     (let parent = fst (path_split name) in
      if name = [] then Inl (FileNotFoundError name)
      else if path_exists fs name then Inl (FileExistsError name)
      else if parent \<noteq> [] \<and> parent \<in> set (files fs) then Inl (NotADirectoryError name)
      else if parent \<noteq> [] \<and> \<not> path_isdir fs parent then Inl (FileNotFoundError name)
      else if parent \<in> set (readonly fs) then Inl (PermissionError name)
      else Inr (fs\<lparr>dirs := name # dirs fs\<rparr>))"

text \<open>
  \<open>os.makedirs(name, exist_ok)\<close>, after CPython's \<open>os.py\<close>: the name is split (twice
  when it ends with a separator); a missing head is created first, by recursion, where a
  \<open>FileExistsError\<close> of the recursive call is passed over and any other error is raised;
  then the leaf is created with \<open>mkdir\<close>, whose error is raised unless \<open>exist_ok\<close>
  holds and the name is a directory. The result is the error raised, if any, and the file
  system as the call leaves it: what was created before an error stays.
\<close>

definition split2 :: "string \<Rightarrow> string \<times> string" where
  "split2 name =
     (if snd (path_split name) = [] then path_split (fst (path_split name))
      else path_split name)"

definition is_FileExistsError :: "os_error \<Rightarrow> bool" where
  "is_FileExistsError e = (case e of FileExistsError _ \<Rightarrow> True | _ \<Rightarrow> False)"

definition mkdir_leaf :: "string \<Rightarrow> bool \<Rightarrow> filesystem \<Rightarrow> os_error option \<times> filesystem" where
  "mkdir_leaf name exist_ok fs =
     (case mkdir name fs of
        Inr fs' \<Rightarrow> (None, fs')
      | Inl e \<Rightarrow> if \<not> exist_ok \<or> \<not> path_isdir fs name then (Some e, fs) else (None, fs))"

lemma path_split_length:
  "length (fst (path_split p)) + length (snd (path_split p)) \<le> length p"
proof -
  have a: "length (rev (dropWhile (\<lambda>c. c \<noteq> CHR ''/'') (rev p)))
             + length (rev (takeWhile (\<lambda>c. c \<noteq> CHR ''/'') (rev p))) = length p"
    by (metis add.commute length_append length_rev takeWhile_dropWhile_id)
  have b: "length (rstrip_sep s) \<le> length s" for s
    using length_dropWhile_le [of "\<lambda>c. c = CHR ''/''" "rev s"] by (simp add: rstrip_sep_def)
  show ?thesis
    using a b [of "rev (dropWhile (\<lambda>c. c \<noteq> CHR ''/'') (rev p))"]
    by (auto simp: path_split_def Let_def)
qed

lemma split2_length:
  "length (fst (split2 name)) + length (snd (split2 name)) \<le> length name"
  using path_split_length [of name] path_split_length [of "fst (path_split name)"]
  by (auto simp: split2_def)

lemma split2_shorter:
  "snd (split2 name) \<noteq> [] \<Longrightarrow> length (fst (split2 name)) < length name"
  using split2_length [of name] by (cases "snd (split2 name)") auto

function makedirs :: "string \<Rightarrow> bool \<Rightarrow> filesystem \<Rightarrow> os_error option \<times> filesystem" where
  "makedirs name exist_ok fs =
     (if fst (split2 name) \<noteq> [] \<and> snd (split2 name) \<noteq> []
         \<and> \<not> path_exists fs (fst (split2 name))
      then
        (case makedirs (fst (split2 name)) exist_ok fs of
           (Some e, fs') \<Rightarrow>
             if is_FileExistsError e
             then (if snd (split2 name) = ''.'' then (None, fs')
                   else mkdir_leaf name exist_ok fs')
             else (Some e, fs')
         | (None, fs') \<Rightarrow>
             if snd (split2 name) = ''.'' then (None, fs')
             else mkdir_leaf name exist_ok fs')
      else mkdir_leaf name exist_ok fs)"
  by pat_completeness auto
termination
  by (relation "measure (\<lambda>(name, exist_ok, fs). length name)") (auto simp: split2_shorter)

declare makedirs.simps [simp del]

section \<open>The Keras callbacks\<close>

text \<open>
  Each Keras constructor is taken as the record of the keyword arguments it is given;
  with the arguments that \<open>standard_callbacks\<close> passes, none of them raises. The float
  literals \<open>0.5\<close> and \<open>1e-6\<close> are the decimal numbers written: the function passes
  them on and computes nothing with them. The selectors carry the names of the keyword
  arguments, with the suffix \<open>_of\<close>.
\<close>

datatype callback =
    is_ModelCheckpoint: ModelCheckpoint
      (filepath_of: string) (monitor_of: string) (mode_of: string)
      (save_best_only_of: bool) (save_weights_only_of: bool) (verbose_of: int)
  | is_EarlyStopping: EarlyStopping
      (monitor_of: string) (patience_of: int) (mode_of: string)
      (restore_best_weights_of: bool) (verbose_of: int)
  | is_ReduceLROnPlateau: ReduceLROnPlateau
      (monitor_of: string) (factor_of: real) (patience_of: int) (min_lr_of: real)
      (mode_of: string) (verbose_of: int)
  | is_TensorBoard: TensorBoard
      (log_dir_of: string) (histogram_freq_of: int) (write_graph_of: bool) (update_freq_of: string)
  | is_CSVLogger: CSVLogger
      (filename_of: string) (append_of: bool) (separator_of: string)

section \<open>The process: clock, file system, standard output\<close>

text \<open>
  \<open>encodable\<close> stands for the encoding of the standard output and its error handler: it
  holds of the texts that can be written. Two encodings for the examples: UTF-8, which
  has every text, and ASCII, which has the texts without a byte above \<open>0x7F\<close>, that is
  without a code point above U+007F.
\<close>

record world =
  now :: datetime
  fs :: filesystem
  stdout :: string
  encodable :: "string \<Rightarrow> bool"

definition encodes_utf_8 :: "string \<Rightarrow> bool" where
  "encodes_utf_8 s = True"


text \<open>
  What the function can raise: the error of a call on the file system, and the error of
  \<open>print\<close> on a text that the standard output cannot encode.
\<close>

datatype exception =
    OSError os_error
  | UnicodeEncodeError string

text \<open>
  \<open>print(s)\<close> writes the text and a newline; when the text cannot be encoded it raises
  and writes nothing of it.
\<close>

definition print :: "string \<Rightarrow> world \<Rightarrow> exception + world" where
  "print s w =
     (if encodable w s then Inr (w\<lparr>stdout := stdout w @ s @ [CHR 0x0A]\<rparr>)
      else Inl (UnicodeEncodeError s))"

text \<open>The escape character, and the UTF-8 bytes of the arrow of the two last messages.\<close>

definition esc :: string where
  "esc = [CHR 0x1B]"

definition arrow :: string where
  "arrow = [CHR 0xE2, CHR 0x86, CHR 0x92]"

section \<open>\<open>standard_callbacks\<close>\<close>

text \<open>
  The function returns the list of callbacks, or the error that \<open>os.makedirs\<close> or
  \<open>print\<close> raised, and the process as it leaves it.
\<close>

definition standard_callbacks ::
  "string \<Rightarrow> string \<Rightarrow> int \<Rightarrow> world \<Rightarrow> (exception + callback list) \<times> world" where
  "standard_callbacks run_name monitor patience w =
     (let timestamp = strftime (now w) ''%Y%m%d_%H%M%S'';
          run_dir = path_join ''runs'' [run_name @ ''_'' @ timestamp]
      in case makedirs (path_join run_dir [''checkpoints'']) True (fs w) of
           (Some e, fs1) \<Rightarrow> (Inl (OSError e), w\<lparr>fs := fs1\<rparr>)
         | (None, fs1) \<Rightarrow>
      (case makedirs (path_join run_dir [''logs'']) True fs1 of
           (Some e, fs2) \<Rightarrow> (Inl (OSError e), w\<lparr>fs := fs2\<rparr>)
         | (None, fs2) \<Rightarrow>
      (let checkpoint_path = path_join run_dir [''checkpoints'', ''best_model.keras''];
           csv_path = path_join run_dir [run_name @ ''_training_log.csv''];
           tensorboard_log_dir = path_join run_dir [''logs''];
           monitor_lower = lower monitor;
           mode =
             (if list_ex (\<lambda>k. str_in k monitor_lower)
                   [''acc'', ''auc'', ''precision'', ''recall'']
              then ''max'' else ''min'');
           checkpoint = ModelCheckpoint checkpoint_path monitor mode True False 1;
           early_stop = EarlyStopping monitor patience mode True 1;
           reduce_lr = ReduceLROnPlateau monitor 0.5 3 (1 / 10 ^ 6) mode 1;
           tensorboard = TensorBoard tensorboard_log_dir 1 True ''epoch'';
           csv_logger = CSVLogger csv_path False '',''
       in case print (esc @ ''[92m[CALLBACKS]'' @ esc @ ''[0m Initialized for run: ''
                        @ run_name) (w\<lparr>fs := fs2\<rparr>) of
            Inl e \<Rightarrow> (Inl e, w\<lparr>fs := fs2\<rparr>)
          | Inr w1 \<Rightarrow>
       (case print (''  '' @ arrow @ '' Logs: '' @ tensorboard_log_dir) w1 of
            Inl e \<Rightarrow> (Inl e, w1)
          | Inr w2 \<Rightarrow>
       (case print (''  '' @ arrow @ '' Checkpoints: '' @ checkpoint_path) w2 of
            Inl e \<Rightarrow> (Inl e, w2)
          | Inr w3 \<Rightarrow>
              (Inr [checkpoint, reduce_lr, early_stop, tensorboard, csv_logger], w3))))))"

text \<open>The call with every argument left to its default.\<close>

definition standard_callbacks_default :: "world \<Rightarrow> (exception + callback list) \<times> world" where
  "standard_callbacks_default w = standard_callbacks ''default_run'' ''val_loss'' 7 w"

section \<open>The values the function computes\<close>

text \<open>
  The local variables of \<open>standard_callbacks\<close> and the parts of its result, each under
  a name of its own, so that the properties below can speak of them;
  \<open>standard_callbacks_unfold\<close> shows that the function is made of exactly these.
  \<open>creation_error\<close> is the error, if any, of the two calls of \<open>os.makedirs\<close> in their
  order; \<open>print_error\<close> is the error, if any, of the three calls of \<open>print\<close> in their
  order, and \<open>printed\<close> is what they write: the lines before the first one that cannot
  be encoded.
\<close>

definition timestamp_at :: "world \<Rightarrow> string" where
  "timestamp_at w = strftime (now w) ''%Y%m%d_%H%M%S''"

definition run_dir_at :: "string \<Rightarrow> world \<Rightarrow> string" where
  "run_dir_at run_name w = path_join ''runs'' [run_name @ ''_'' @ timestamp_at w]"

definition mode_for :: "string \<Rightarrow> string" where
  "mode_for monitor =
     (if list_ex (\<lambda>k. str_in k (lower monitor)) [''acc'', ''auc'', ''precision'', ''recall'']
      then ''max'' else ''min'')"

definition callbacks_at :: "string \<Rightarrow> string \<Rightarrow> int \<Rightarrow> world \<Rightarrow> callback list" where
  "callbacks_at run_name monitor patience w =
     [ModelCheckpoint (path_join (run_dir_at run_name w) [''checkpoints'', ''best_model.keras''])
        monitor (mode_for monitor) True False 1,
      ReduceLROnPlateau monitor 0.5 3 (1 / 10 ^ 6) (mode_for monitor) 1,
      EarlyStopping monitor patience (mode_for monitor) True 1,
      TensorBoard (path_join (run_dir_at run_name w) [''logs'']) 1 True ''epoch'',
      CSVLogger (path_join (run_dir_at run_name w) [run_name @ ''_training_log.csv''])
        False '','']"


definition status_lines_at :: "string \<Rightarrow> world \<Rightarrow> string list" where
  "status_lines_at run_name w =
     [esc @ ''[92m[CALLBACKS]'' @ esc @ ''[0m Initialized for run: '' @ run_name,
      ''  '' @ arrow @ '' Logs: '' @ path_join (run_dir_at run_name w) [''logs''],
      ''  '' @ arrow @ '' Checkpoints: ''
        @ path_join (run_dir_at run_name w) [''checkpoints'', ''best_model.keras'']]"

definition print_error :: "string \<Rightarrow> world \<Rightarrow> exception option" where
  "print_error run_name w =
     (case dropWhile (encodable w) (status_lines_at run_name w) of
        [] \<Rightarrow> None
      | t # ts \<Rightarrow> Some (UnicodeEncodeError t))"

definition printed :: "string \<Rightarrow> world \<Rightarrow> string" where
  "printed run_name w =
     concat (map (\<lambda>t. t @ [CHR 0x0A]) (takeWhile (encodable w) (status_lines_at run_name w)))"

definition creation_error :: "string \<Rightarrow> world \<Rightarrow> os_error option" where
  "creation_error run_name w =
     (case makedirs (path_join (run_dir_at run_name w) [''checkpoints'']) True (fs w) of
        (Some e, fs1) \<Rightarrow> Some e
      | (None, fs1) \<Rightarrow> fst (makedirs (path_join (run_dir_at run_name w) [''logs'']) True fs1))"

text \<open>
  The specification's words: a string contains a keyword case-insensitively when one of
  its contiguous blocks equals the keyword up to the case of the letters.
\<close>

definition contains_ci :: "string \<Rightarrow> string \<Rightarrow> bool" where
  "contains_ci s k = (\<exists>u. sublist u s \<and> lower u = lower k)"

text \<open>
  A process for the examples: the clock at 2024-01-01 00:00:00, nothing on the file system,
  nothing printed, a standard output in UTF-8.
\<close>

definition fresh_world :: world where
  "fresh_world =
     \<lparr>now = \<lparr>year = 2024, month = 1, day = 1, hour = 0, minute = 0, second = 0\<rparr>,
      fs = \<lparr>dirs = [], files = [], readonly = []\<rparr>,
      stdout = [], encodable = encodes_utf_8\<rparr>"

text \<open>
  The same instant in a process that already has the four directories and has printed a
  line.
\<close>

definition rerun_world :: world where
  "rerun_world =
     \<lparr>now = \<lparr>year = 2024, month = 1, day = 1, hour = 0, minute = 0, second = 0\<rparr>,
      fs = \<lparr>dirs = [''runs/exp1_20240101_000000/logs'',
                      ''runs/exp1_20240101_000000/checkpoints'',
                      ''runs/exp1_20240101_000000'', ''runs''],
            files = [], readonly = []\<rparr>,
      stdout = ''epoch 1'' @ [CHR 0x0A], encodable = encodes_utf_8\<rparr>"

text \<open>
  The file system after the two calls of \<open>os.makedirs\<close>: the second call is not made when
  the first one raises, and nothing is undone.
\<close>

definition creation_fs :: "string \<Rightarrow> world \<Rightarrow> filesystem" where
  "creation_fs run_name w =
     (case makedirs (path_join (run_dir_at run_name w) [''checkpoints'']) True (fs w) of
        (Some e, fs1) \<Rightarrow> fs1
      | (None, fs1) \<Rightarrow> snd (makedirs (path_join (run_dir_at run_name w) [''logs'']) True fs1))"




text \<open>The same instant in a process where \<open>runs\<close> is a regular file.\<close>

definition blocked_world :: world where
  "blocked_world =
     \<lparr>now = \<lparr>year = 2024, month = 1, day = 1, hour = 0, minute = 0, second = 0\<rparr>,
      fs = \<lparr>dirs = [], files = [''runs''], readonly = []\<rparr>,
      stdout = [], encodable = encodes_utf_8\<rparr>"





text \<open>
  On a file system every directory lies in a directory: the head of its path is empty
  (the directory lies in the current one) or is a directory itself.
\<close>

definition parent_present :: "filesystem \<Rightarrow> string \<Rightarrow> bool" where
  "parent_present f p = (fst (path_split p) = [] \<or> path_isdir f (fst (path_split p)))"



section \<open>The shape of the paths and of the result\<close>

lemma standard_callbacks_unfold:
  "standard_callbacks run_name monitor patience w =
     (case makedirs (path_join (run_dir_at run_name w) [''checkpoints'']) True (fs w) of
        (Some e, fs1) \<Rightarrow> (Inl (OSError e), w\<lparr>fs := fs1\<rparr>)
      | (None, fs1) \<Rightarrow>
          (case makedirs (path_join (run_dir_at run_name w) [''logs'']) True fs1 of
             (Some e, fs2) \<Rightarrow> (Inl (OSError e), w\<lparr>fs := fs2\<rparr>)
           | (None, fs2) \<Rightarrow>
               (case print_error run_name w of
                  Some e \<Rightarrow> Inl e
                | None \<Rightarrow> Inr (callbacks_at run_name monitor patience w),
                w\<lparr>fs := fs2, stdout := stdout w @ printed run_name w\<rparr>)))"
  by (simp add: standard_callbacks_def Let_def run_dir_at_def timestamp_at_def mode_for_def
      callbacks_at_def status_lines_at_def print_error_def printed_def print_def
      split: prod.splits option.splits)

lemma print_error_None:
  "print_error run_name w = None \<longleftrightarrow> list_all (encodable w) (status_lines_at run_name w)"
  by (simp add: print_error_def status_lines_at_def)


lemma print_error_utf_8:
  "encodable w = encodes_utf_8 \<Longrightarrow> print_error run_name w = None"
  by (simp add: print_error_None status_lines_at_def encodes_utf_8_def)

lemma str_in_iff_sublist: "str_in k s = sublist k s"
  by (induction s) (auto simp: sublist_Cons_right)

lemma sublist_map_iff: "sublist k (map f s) \<longleftrightarrow> (\<exists>u. sublist u s \<and> map f u = k)"
  unfolding sublist_def
  by (auto simp: map_eq_append_conv append_eq_map_conv) blast+


lemma digit_in_digits: "digit n \<in> set ''0123456789''"
proof -
  have "n mod 10 < length ''0123456789''" by simp
  then show ?thesis unfolding digit_def by (rule nth_mem)
qed

lemma digit_not_sep: "digit n \<noteq> CHR ''/''"
  using digit_in_digits [of n] by auto

lemma timestamp_form:
  "timestamp_at w =
     zpad4 (year (now w)) @ zpad2 (month (now w)) @ zpad2 (day (now w)) @ ''_''
     @ zpad2 (hour (now w)) @ zpad2 (minute (now w)) @ zpad2 (second (now w))"
  by (simp add: timestamp_at_def directive_def)

lemma timestamp_last:
  "timestamp_at w \<noteq> [] \<and> last (timestamp_at w) = digit (second (now w))"
  by (simp add: timestamp_form zpad2_def zpad4_def)

lemma startswith_sep: "startswith b ''/'' = (b \<noteq> [] \<and> hd b = CHR ''/'')"
  by (cases b) (auto simp: startswith_def)

lemma endswith_sep: "endswith p ''/'' = (p \<noteq> [] \<and> last p = CHR ''/'')"
  by (cases p rule: rev_cases) (auto simp: endswith_def)

lemma path_join_one:
  "path_join a [b] =
     (if b \<noteq> [] \<and> hd b = CHR ''/'' then b
      else if a = [] \<or> last a = CHR ''/'' then a @ b
      else a @ ''/'' @ b)"
  by (auto simp: path_join_def join_step_def startswith_sep endswith_sep sep_def)

lemma run_dir_form:
  "run_dir_at run_name w =
     (if startswith run_name ''/'' then run_name @ ''_'' @ timestamp_at w
      else ''runs/'' @ run_name @ ''_'' @ timestamp_at w)"
  by (cases run_name) (auto simp: run_dir_at_def path_join_one startswith_sep)

lemma run_dir_last:
  "run_dir_at run_name w \<noteq> [] \<and> last (run_dir_at run_name w) \<noteq> CHR ''/''"
  using timestamp_last [of w] digit_not_sep [of "second (now w)"]
  by (auto simp: run_dir_form)


lemma log_dir_form:
  "path_join (run_dir_at run_name w) [''logs''] = run_dir_at run_name w @ ''/logs''"
  using run_dir_last [of run_name w] by (simp add: path_join_one)

lemma checkpoint_path_form:
  "path_join (run_dir_at run_name w) [''checkpoints'', ''best_model.keras'']
     = run_dir_at run_name w @ ''/checkpoints/best_model.keras''"
  using run_dir_last [of run_name w]
  by (simp add: path_join_def join_step_def startswith_sep endswith_sep sep_def)

lemma csv_path_form:
  "path_join (run_dir_at run_name w) [run_name @ ''_training_log.csv''] =
     (if startswith run_name ''/'' then run_name @ ''_training_log.csv''
      else run_dir_at run_name w @ ''/'' @ run_name @ ''_training_log.csv'')"
  using run_dir_last [of run_name w]
  by (cases run_name) (auto simp: path_join_one startswith_sep)


lemma standard_callbacks_result:
  "fst (standard_callbacks run_name monitor patience w) =
     (case creation_error run_name w of
        Some e \<Rightarrow> Inl (OSError e)
      | None \<Rightarrow>
          (case print_error run_name w of
             Some e \<Rightarrow> Inl e
           | None \<Rightarrow> Inr (callbacks_at run_name monitor patience w)))"
  by (auto simp: standard_callbacks_unfold creation_error_def split: prod.splits option.splits)

lemma standard_callbacks_Inr:
  "fst (standard_callbacks run_name monitor patience w) = Inr cbs
     \<Longrightarrow> cbs = callbacks_at run_name monitor patience w"
  by (simp add: standard_callbacks_result split: option.splits)

lemma contains_ci_iff: "contains_ci s k = str_in (lower k) (lower s)"
  by (auto simp: contains_ci_def str_in_iff_sublist lower_def sublist_map_iff)

lemmas lower_eval = lower_def lower_char_def ascii_uppercase_def ascii_lowercase_def

lemma lower_keywords:
  "lower ''acc'' = ''acc''" "lower ''auc'' = ''auc''"
  "lower ''precision'' = ''precision''" "lower ''recall'' = ''recall''"
  by (simp_all add: lower_eval)

lemma mode_for_iff:
  "mode_for monitor =
     (if \<exists>k \<in> set [''acc'', ''auc'', ''precision'', ''recall'']. contains_ci monitor k
      then ''max'' else ''min'')"
  by (simp add: mode_for_def contains_ci_iff lower_keywords)

lemma timestamp_fresh: "timestamp_at fresh_world = ''20240101_000000''"
  by (simp add: timestamp_form fresh_world_def zpad2_def zpad4_def digit_def)

lemma run_dir_fresh: "run_dir_at ''exp1'' fresh_world = ''runs/exp1_20240101_000000''"
  by (simp add: run_dir_form timestamp_fresh startswith_sep)

lemmas path_eval = split2_def path_split_def is_root_def rstrip_sep_def
lemmas fs_eval = path_exists_def path_isdir_def mkdir_leaf_def mkdir_def is_FileExistsError_def

lemma makedirs_fresh_runs:
  "makedirs ''runs'' True \<lparr>dirs = [], files = [], readonly = []\<rparr> =
     (None, \<lparr>dirs = [''runs''], files = [], readonly = []\<rparr>)"
  by (simp add: makedirs.simps [of "''runs''"] path_eval fs_eval)

lemma makedirs_fresh_run_dir:
  "makedirs ''runs/exp1_20240101_000000'' True \<lparr>dirs = [], files = [], readonly = []\<rparr> =
     (None, \<lparr>dirs = [''runs/exp1_20240101_000000'', ''runs''], files = [], readonly = []\<rparr>)"
  by (simp add: makedirs.simps [of "''runs/exp1_20240101_000000''"] makedirs_fresh_runs
      path_eval fs_eval)

lemma makedirs_fresh_checkpoints:
  "makedirs ''runs/exp1_20240101_000000/checkpoints'' True
       \<lparr>dirs = [], files = [], readonly = []\<rparr> =
     (None, \<lparr>dirs = [''runs/exp1_20240101_000000/checkpoints'',
                      ''runs/exp1_20240101_000000'', ''runs''],
             files = [], readonly = []\<rparr>)"
  by (simp add: makedirs.simps [of "''runs/exp1_20240101_000000/checkpoints''"]
      makedirs_fresh_run_dir path_eval fs_eval)

lemma makedirs_fresh_logs:
  "makedirs ''runs/exp1_20240101_000000/logs'' True
       \<lparr>dirs = [''runs/exp1_20240101_000000/checkpoints'',
                 ''runs/exp1_20240101_000000'', ''runs''],
        files = [], readonly = []\<rparr> =
     (None, \<lparr>dirs = [''runs/exp1_20240101_000000/logs'',
                      ''runs/exp1_20240101_000000/checkpoints'',
                      ''runs/exp1_20240101_000000'', ''runs''],
             files = [], readonly = []\<rparr>)"
  by (simp add: makedirs.simps [of "''runs/exp1_20240101_000000/logs''"] path_eval fs_eval)

lemma creation_error_fresh: "creation_error ''exp1'' fresh_world = None"
proof -
  have "fs fresh_world = \<lparr>dirs = [], files = [], readonly = []\<rparr>"
    by (simp add: fresh_world_def)
  then show ?thesis
    by (simp add: creation_error_def run_dir_fresh path_join_one
        makedirs_fresh_checkpoints makedirs_fresh_logs)
qed

lemma print_error_fresh: "print_error run_name fresh_world = None"
  by (rule print_error_utf_8) (simp add: fresh_world_def)

lemma standard_callbacks_fresh:
  "fst (standard_callbacks ''exp1'' monitor patience fresh_world)
     = Inr (callbacks_at ''exp1'' monitor patience fresh_world)"
  by (simp add: standard_callbacks_result creation_error_fresh print_error_fresh)

lemma lower_examples:
  "lower ''val_accuracy'' = ''val_accuracy''" "lower ''loss'' = ''loss''"
  "lower ''AUC_score'' = ''auc_score''" "lower ''val_loss'' = ''val_loss''"
  by (simp_all add: lower_eval)

lemma mode_for_examples:
  "mode_for ''val_accuracy'' = ''max''" "mode_for ''loss'' = ''min''"
  "mode_for ''AUC_score'' = ''max''" "mode_for ''val_loss'' = ''min''"
  by (simp_all add: mode_for_def lower_examples)

lemma callbacks_fresh:
  "callbacks_at ''exp1'' monitor patience fresh_world =
     [ModelCheckpoint ''runs/exp1_20240101_000000/checkpoints/best_model.keras''
        monitor (mode_for monitor) True False 1,
      ReduceLROnPlateau monitor 0.5 3 (1 / 10 ^ 6) (mode_for monitor) 1,
      EarlyStopping monitor patience (mode_for monitor) True 1,
      TensorBoard ''runs/exp1_20240101_000000/logs'' 1 True ''epoch'',
      CSVLogger ''runs/exp1_20240101_000000/exp1_training_log.csv'' False '','']"
  unfolding callbacks_at_def checkpoint_path_form log_dir_form csv_path_form
  by (simp add: run_dir_fresh startswith_sep)

lemma mode_for_empty: "mode_for [] = ''min''"
  by (simp add: mode_for_def lower_def)

lemma timestamp_rerun: "timestamp_at rerun_world = ''20240101_000000''"
  by (simp add: timestamp_form rerun_world_def zpad2_def zpad4_def digit_def)

lemma run_dir_rerun: "run_dir_at ''exp1'' rerun_world = ''runs/exp1_20240101_000000''"
  by (simp add: run_dir_form timestamp_rerun startswith_sep)

lemma makedirs_rerun_checkpoints:
  "makedirs ''runs/exp1_20240101_000000/checkpoints'' True (fs rerun_world)
     = (None, fs rerun_world)"
  by (simp add: makedirs.simps [of "''runs/exp1_20240101_000000/checkpoints''"]
      rerun_world_def path_eval fs_eval)

lemma makedirs_rerun_logs:
  "makedirs ''runs/exp1_20240101_000000/logs'' True (fs rerun_world) = (None, fs rerun_world)"
  by (simp add: makedirs.simps [of "''runs/exp1_20240101_000000/logs''"]
      rerun_world_def path_eval fs_eval)

lemma creation_error_rerun: "creation_error ''exp1'' rerun_world = None"
  by (simp add: creation_error_def run_dir_rerun path_join_one
      makedirs_rerun_checkpoints makedirs_rerun_logs)

lemma print_error_rerun: "print_error run_name rerun_world = None"
  by (rule print_error_utf_8) (simp add: rerun_world_def)

lemma standard_callbacks_rerun:
  "fst (standard_callbacks ''exp1'' monitor patience rerun_world)
     = Inr (callbacks_at ''exp1'' monitor patience rerun_world)"
  by (simp add: standard_callbacks_result creation_error_rerun print_error_rerun)

section \<open>What \<open>os.makedirs\<close> does\<close>






















lemma timestamp_blocked: "timestamp_at blocked_world = ''20240101_000000''"
  by (simp add: timestamp_form blocked_world_def zpad2_def zpad4_def digit_def)

lemma run_dir_blocked: "run_dir_at ''exp1'' blocked_world = ''runs/exp1_20240101_000000''"
  by (simp add: run_dir_form timestamp_blocked startswith_sep)

lemma makedirs_blocked_run_dir:
  "makedirs ''runs/exp1_20240101_000000'' True (fs blocked_world) =
     (Some (NotADirectoryError ''runs/exp1_20240101_000000''), fs blocked_world)"
  by (simp add: makedirs.simps [of "''runs/exp1_20240101_000000''"]
      blocked_world_def path_eval fs_eval)

lemma makedirs_blocked_checkpoints:
  "makedirs ''runs/exp1_20240101_000000/checkpoints'' True (fs blocked_world) =
     (Some (NotADirectoryError ''runs/exp1_20240101_000000''), fs blocked_world)"
proof -
  have "split2 ''runs/exp1_20240101_000000/checkpoints''
          = (''runs/exp1_20240101_000000'', ''checkpoints'')"
    by (simp add: path_eval)
  moreover have "\<not> path_exists (fs blocked_world) ''runs/exp1_20240101_000000''"
    by (simp add: blocked_world_def fs_eval is_root_def)
  ultimately show ?thesis
    by (simp add: makedirs.simps [of "''runs/exp1_20240101_000000/checkpoints''"]
        makedirs_blocked_run_dir is_FileExistsError_def)
qed

lemma creation_error_blocked:
  "creation_error ''exp1'' blocked_world
     = Some (NotADirectoryError ''runs/exp1_20240101_000000'')"
  by (simp add: creation_error_def run_dir_blocked path_join_one makedirs_blocked_checkpoints)


lemma creation_fs_rerun: "creation_fs ''exp1'' rerun_world = fs rerun_world"
  by (simp add: creation_fs_def run_dir_rerun path_join_one
      makedirs_rerun_checkpoints makedirs_rerun_logs)





















lemma standard_callbacks_default_Inr:
  assumes "fst (standard_callbacks_default w) = Inr cbs"
  shows "cbs = callbacks_at ''default_run'' ''val_loss'' 7 w
         \<and> monitor_of (cbs ! 0) = ''val_loss'' \<and> mode_of (cbs ! 0) = ''min''"
  using standard_callbacks_Inr [of "''default_run''" "''val_loss''" 7 w cbs] assms
  by (simp add: standard_callbacks_default_def callbacks_at_def mode_for_examples)

section \<open>When the creation succeeds, and what it leaves\<close>


lemma parent_present_mono:
  "parent_present f p \<Longrightarrow> set (dirs f) \<subseteq> set (dirs f') \<Longrightarrow> parent_present f' p"
  by (auto simp: parent_present_def path_isdir_def)














section \<open>What \<open>print\<close> writes\<close>










section \<open>The direction\<close>

text \<open>
  C1. Whenever the function returns, the mode of the checkpoint, of the early stopping
  and of the learning-rate reduction is \<open>max\<close> if the monitor contains
  case-insensitively one of \<open>acc\<close>, \<open>auc\<close>, \<open>precision\<close>, \<open>recall\<close>, and \<open>min\<close>
  for every other monitor.
\<close>

theorem direction_from_monitor:
  assumes "fst (standard_callbacks run_name monitor patience w) = Inr cbs"
  shows "(let direction =
            (if \<exists>k \<in> set [''acc'', ''auc'', ''precision'', ''recall'']. contains_ci monitor k
             then ''max'' else ''min'')
          in is_ModelCheckpoint (cbs ! 0) \<and> mode_of (cbs ! 0) = direction
           \<and> is_EarlyStopping (cbs ! 2) \<and> mode_of (cbs ! 2) = direction
           \<and> is_ReduceLROnPlateau (cbs ! 1) \<and> mode_of (cbs ! 1) = direction)"
  using standard_callbacks_Inr [OF assms]
  by (simp add: callbacks_at_def mode_for_iff Let_def)

text \<open>The examples of the specification: \<open>val_accuracy\<close>, \<open>loss\<close>, \<open>AUC_score\<close>.\<close>

theorem direction_from_monitor_witness:
  "fst (standard_callbacks ''exp1'' ''val_accuracy'' 10 fresh_world)
     = Inr (callbacks_at ''exp1'' ''val_accuracy'' 10 fresh_world)
   \<and> contains_ci ''val_accuracy'' ''acc''
   \<and> mode_of (callbacks_at ''exp1'' ''val_accuracy'' 10 fresh_world ! 0) = ''max''
   \<and> fst (standard_callbacks ''exp1'' ''loss'' 10 fresh_world)
     = Inr (callbacks_at ''exp1'' ''loss'' 10 fresh_world)
   \<and> \<not> contains_ci ''loss'' ''acc'' \<and> \<not> contains_ci ''loss'' ''auc''
   \<and> \<not> contains_ci ''loss'' ''precision'' \<and> \<not> contains_ci ''loss'' ''recall''
   \<and> mode_of (callbacks_at ''exp1'' ''loss'' 10 fresh_world ! 1) = ''min''
   \<and> fst (standard_callbacks ''exp1'' ''AUC_score'' 10 fresh_world)
     = Inr (callbacks_at ''exp1'' ''AUC_score'' 10 fresh_world)
   \<and> contains_ci ''AUC_score'' ''auc''
   \<and> mode_of (callbacks_at ''exp1'' ''AUC_score'' 10 fresh_world ! 2) = ''max''"
proof -
  note a = direction_from_monitor [OF standard_callbacks_fresh [of "''val_accuracy''" 10],
      folded mode_for_iff]
  note b = direction_from_monitor [OF standard_callbacks_fresh [of "''loss''" 10],
      folded mode_for_iff]
  note c = direction_from_monitor [OF standard_callbacks_fresh [of "''AUC_score''" 10],
      folded mode_for_iff]
  have m: "mode_of (callbacks_at ''exp1'' ''val_accuracy'' 10 fresh_world ! 0) = ''max''"
    "mode_of (callbacks_at ''exp1'' ''loss'' 10 fresh_world ! 1) = ''min''"
    "mode_of (callbacks_at ''exp1'' ''AUC_score'' 10 fresh_world ! 2) = ''max''"
    using a b c by (simp_all add: Let_def mode_for_examples)
  have k: "contains_ci ''val_accuracy'' ''acc''" "contains_ci ''AUC_score'' ''auc''"
    "\<not> contains_ci ''loss'' ''acc''" "\<not> contains_ci ''loss'' ''auc''"
    "\<not> contains_ci ''loss'' ''precision''" "\<not> contains_ci ''loss'' ''recall''"
    by (simp_all add: contains_ci_iff lower_keywords lower_examples)
  show ?thesis
    using m k standard_callbacks_fresh [of "''val_accuracy''" 10]
      standard_callbacks_fresh [of "''loss''" 10] standard_callbacks_fresh [of "''AUC_score''" 10]
    by blast
qed

section \<open>The list returned\<close>

text \<open>
  C2. Whenever the two directories can be created and the three status lines written, the
  function returns, and whatever it returns is a list of exactly five callbacks in this
  order: the checkpoint, the learning-rate reduction, the early stopping, the TensorBoard
  log and the CSV log.
\<close>

theorem five_callbacks_in_order:
  "(creation_error run_name w = None \<and> print_error run_name w = None \<longrightarrow>
      (\<exists>cbs. fst (standard_callbacks run_name monitor patience w) = Inr cbs))
   \<and> (\<forall>cbs. fst (standard_callbacks run_name monitor patience w) = Inr cbs \<longrightarrow>
         length cbs = 5
         \<and> is_ModelCheckpoint (cbs ! 0) \<and> is_ReduceLROnPlateau (cbs ! 1)
         \<and> is_EarlyStopping (cbs ! 2) \<and> is_TensorBoard (cbs ! 3)
         \<and> is_CSVLogger (cbs ! 4))"
  by (auto simp: standard_callbacks_result callbacks_at_def split: option.splits)

theorem five_callbacks_in_order_witness:
  "creation_error ''exp1'' fresh_world = None
   \<and> print_error ''exp1'' fresh_world = None
   \<and> fst (standard_callbacks ''exp1'' ''val_loss'' 7 fresh_world) =
       Inr [ModelCheckpoint ''runs/exp1_20240101_000000/checkpoints/best_model.keras''
              ''val_loss'' ''min'' True False 1,
            ReduceLROnPlateau ''val_loss'' 0.5 3 (1 / 10 ^ 6) ''min'' 1,
            EarlyStopping ''val_loss'' 7 ''min'' True 1,
            TensorBoard ''runs/exp1_20240101_000000/logs'' 1 True ''epoch'',
            CSVLogger ''runs/exp1_20240101_000000/exp1_training_log.csv'' False '','']
   \<and> length (callbacks_at ''exp1'' ''val_loss'' 7 fresh_world) = 5
   \<and> is_ModelCheckpoint (callbacks_at ''exp1'' ''val_loss'' 7 fresh_world ! 0)
   \<and> is_ReduceLROnPlateau (callbacks_at ''exp1'' ''val_loss'' 7 fresh_world ! 1)
   \<and> is_EarlyStopping (callbacks_at ''exp1'' ''val_loss'' 7 fresh_world ! 2)
   \<and> is_TensorBoard (callbacks_at ''exp1'' ''val_loss'' 7 fresh_world ! 3)
   \<and> is_CSVLogger (callbacks_at ''exp1'' ''val_loss'' 7 fresh_world ! 4)"
  using five_callbacks_in_order [of "''exp1''" fresh_world "''val_loss''" 7]
    creation_error_fresh print_error_fresh [of "''exp1''"]
    standard_callbacks_fresh [of "''val_loss''" 7]
  by (simp add: callbacks_fresh mode_for_examples)

text \<open>
  C3. In the list returned the learning-rate reduction has patience 3, factor 0.5 and
  minimal learning rate 1e-6, and it is the same whatever patience the caller gives;
  the early stopping has the patience the caller gives.
\<close>

theorem patience_of_reduce_and_stop:
  assumes "fst (standard_callbacks run_name monitor patience w) = Inr cbs"
    and "fst (standard_callbacks run_name monitor patience' w) = Inr cbs'"
  shows "is_ReduceLROnPlateau (cbs ! 1) \<and> patience_of (cbs ! 1) = 3
         \<and> factor_of (cbs ! 1) = 0.5 \<and> min_lr_of (cbs ! 1) = 1 / 10 ^ 6
         \<and> is_EarlyStopping (cbs ! 2) \<and> patience_of (cbs ! 2) = patience
         \<and> cbs' ! 1 = cbs ! 1"
  using standard_callbacks_Inr [OF assms(1)] standard_callbacks_Inr [OF assms(2)]
  by (simp add: callbacks_at_def)

theorem patience_of_reduce_and_stop_witness:
  "fst (standard_callbacks ''exp1'' ''val_loss'' 10 fresh_world)
     = Inr (callbacks_at ''exp1'' ''val_loss'' 10 fresh_world)
   \<and> fst (standard_callbacks ''exp1'' ''val_loss'' 0 fresh_world)
     = Inr (callbacks_at ''exp1'' ''val_loss'' 0 fresh_world)
   \<and> callbacks_at ''exp1'' ''val_loss'' 10 fresh_world ! 1
     = ReduceLROnPlateau ''val_loss'' 0.5 3 (1 / 10 ^ 6) ''min'' 1
   \<and> callbacks_at ''exp1'' ''val_loss'' 0 fresh_world ! 1
     = ReduceLROnPlateau ''val_loss'' 0.5 3 (1 / 10 ^ 6) ''min'' 1
   \<and> patience_of (callbacks_at ''exp1'' ''val_loss'' 10 fresh_world ! 1) = 3
   \<and> callbacks_at ''exp1'' ''val_loss'' 10 fresh_world ! 2
     = EarlyStopping ''val_loss'' 10 ''min'' True 1
   \<and> patience_of (callbacks_at ''exp1'' ''val_loss'' 10 fresh_world ! 2) = 10"
  using patience_of_reduce_and_stop [OF standard_callbacks_fresh [of "''val_loss''" 10]
      standard_callbacks_fresh [of "''val_loss''" 0]]
    standard_callbacks_fresh [of "''val_loss''" 10] standard_callbacks_fresh [of "''val_loss''" 0]
  by (simp add: callbacks_fresh mode_for_examples)

section \<open>The checkpoint\<close>

text \<open>
  C5. In the list returned the checkpoint has the path \<open>run_dir/checkpoints/best_model.keras\<close>,
  the monitor of the caller, the mode derived from it, \<open>save_best_only\<close> true,
  \<open>save_weights_only\<close> false and \<open>verbose\<close> 1.
\<close>

theorem checkpoint_spec:
  assumes "fst (standard_callbacks run_name monitor patience w) = Inr cbs"
  shows "cbs ! 0 =
           ModelCheckpoint (run_dir_at run_name w @ ''/checkpoints/best_model.keras'')
             monitor (mode_for monitor) True False 1"
  using standard_callbacks_Inr [OF assms]
  by (simp add: callbacks_at_def checkpoint_path_form)

theorem checkpoint_spec_witness:
  "fst (standard_callbacks ''exp1'' ''val_accuracy'' 7 fresh_world)
     = Inr (callbacks_at ''exp1'' ''val_accuracy'' 7 fresh_world)
   \<and> callbacks_at ''exp1'' ''val_accuracy'' 7 fresh_world ! 0
     = ModelCheckpoint ''runs/exp1_20240101_000000/checkpoints/best_model.keras''
         ''val_accuracy'' ''max'' True False 1"
  using checkpoint_spec [OF standard_callbacks_fresh [of "''val_accuracy''" 7]]
    standard_callbacks_fresh [of "''val_accuracy''" 7]
  by (simp add: run_dir_fresh mode_for_examples)

text \<open>
  C10. The extension of the checkpoint file is always \<open>keras\<close>: the path of the checkpoint
  ends with \<open>checkpoints/best_model.keras\<close>.
\<close>

theorem checkpoint_extension:
  assumes "fst (standard_callbacks run_name monitor patience w) = Inr cbs"
  shows "is_ModelCheckpoint (cbs ! 0)
         \<and> suffix ''checkpoints/best_model.keras'' (filepath_of (cbs ! 0))"
  using standard_callbacks_Inr [OF assms]
  by (simp add: callbacks_at_def checkpoint_path_form suffix_def)

theorem checkpoint_extension_witness:
  "fst (standard_callbacks ''exp1'' ''loss'' 7 fresh_world)
     = Inr (callbacks_at ''exp1'' ''loss'' 7 fresh_world)
   \<and> filepath_of (callbacks_at ''exp1'' ''loss'' 7 fresh_world ! 0)
     = ''runs/exp1_20240101_000000/checkpoints/best_model.keras''
   \<and> suffix ''checkpoints/best_model.keras''
        (filepath_of (callbacks_at ''exp1'' ''loss'' 7 fresh_world ! 0))"
  using checkpoint_extension [OF standard_callbacks_fresh [of "''loss''" 7]]
    standard_callbacks_fresh [of "''loss''" 7]
  by (simp add: callbacks_fresh)

section \<open>The empty monitor\<close>

text \<open>
  C6. The empty monitor is not validated: whenever the two directories can be created and
  the three status lines written, the function returns the five callbacks, with the empty
  monitor and the mode \<open>min\<close>; and an error of the call is the error of the directory
  creation or, after it, of \<open>print\<close>, the same that the call raises with any other
  monitor.
\<close>

theorem empty_monitor_not_validated:
  "(creation_error run_name w = None \<and> print_error run_name w = None \<longrightarrow>
      fst (standard_callbacks run_name [] patience w) =
        Inr [ModelCheckpoint (run_dir_at run_name w @ ''/checkpoints/best_model.keras'')
               [] ''min'' True False 1,
             ReduceLROnPlateau [] 0.5 3 (1 / 10 ^ 6) ''min'' 1,
             EarlyStopping [] patience ''min'' True 1,
             TensorBoard (run_dir_at run_name w @ ''/logs'') 1 True ''epoch'',
             CSVLogger (path_join (run_dir_at run_name w) [run_name @ ''_training_log.csv''])
               False '',''])
   \<and> (\<forall>e. fst (standard_callbacks run_name [] patience w) = Inl e \<longrightarrow>
          (case creation_error run_name w of
             Some e' \<Rightarrow> e = OSError e'
           | None \<Rightarrow> print_error run_name w = Some e)
          \<and> fst (standard_callbacks run_name monitor patience w) = Inl e)"
  by (auto simp: standard_callbacks_result callbacks_at_def mode_for_empty
      checkpoint_path_form log_dir_form split: option.splits)

theorem empty_monitor_not_validated_witness:
  "creation_error ''exp1'' fresh_world = None
   \<and> print_error ''exp1'' fresh_world = None
   \<and> fst (standard_callbacks ''exp1'' [] 7 fresh_world) =
       Inr [ModelCheckpoint ''runs/exp1_20240101_000000/checkpoints/best_model.keras''
              [] ''min'' True False 1,
            ReduceLROnPlateau [] 0.5 3 (1 / 10 ^ 6) ''min'' 1,
            EarlyStopping [] 7 ''min'' True 1,
            TensorBoard ''runs/exp1_20240101_000000/logs'' 1 True ''epoch'',
            CSVLogger ''runs/exp1_20240101_000000/exp1_training_log.csv'' False '','']
   \<and> fst (standard_callbacks ''exp1'' [] 7 blocked_world)
       = Inl (OSError (NotADirectoryError ''runs/exp1_20240101_000000''))
   \<and> fst (standard_callbacks ''exp1'' ''val_loss'' 7 blocked_world)
       = Inl (OSError (NotADirectoryError ''runs/exp1_20240101_000000''))"
proof -
  have a: "fst (standard_callbacks ''exp1'' [] 7 fresh_world) =
       Inr [ModelCheckpoint ''runs/exp1_20240101_000000/checkpoints/best_model.keras''
              [] ''min'' True False 1,
            ReduceLROnPlateau [] 0.5 3 (1 / 10 ^ 6) ''min'' 1,
            EarlyStopping [] 7 ''min'' True 1,
            TensorBoard ''runs/exp1_20240101_000000/logs'' 1 True ''epoch'',
            CSVLogger ''runs/exp1_20240101_000000/exp1_training_log.csv'' False '','']"
    using empty_monitor_not_validated [of "''exp1''" fresh_world 7 "[]"] creation_error_fresh
      print_error_fresh [of "''exp1''"]
    by (simp add: run_dir_fresh path_join_one)
  have b: "fst (standard_callbacks ''exp1'' [] 7 blocked_world)
             = Inl (OSError (NotADirectoryError ''runs/exp1_20240101_000000''))"
    by (simp add: standard_callbacks_result creation_error_blocked)
  have c: "fst (standard_callbacks ''exp1'' ''val_loss'' 7 blocked_world)
             = Inl (OSError (NotADirectoryError ''runs/exp1_20240101_000000''))"
    using empty_monitor_not_validated [of "''exp1''" blocked_world 7 "''val_loss''"] b
    by blast
  show ?thesis
    using a b c creation_error_fresh print_error_fresh [of "''exp1''"] by blast
qed

section \<open>Determinism\<close>

text \<open>
  C9. Two calls with the same arguments in two processes whose clocks give the same
  timestamp, whatever their file systems and outputs, return the same list when both
  return: the same run directory, the same three paths, the same mode, the same five
  callbacks in the same order.
\<close>

theorem deterministic_given_instant:
  assumes "timestamp_at w1 = timestamp_at w2"
    and "fst (standard_callbacks run_name monitor patience w1) = Inr cbs1"
    and "fst (standard_callbacks run_name monitor patience w2) = Inr cbs2"
  shows "cbs1 = cbs2
         \<and> run_dir_at run_name w1 = run_dir_at run_name w2
         \<and> filepath_of (cbs1 ! 0) = filepath_of (cbs2 ! 0)
         \<and> log_dir_of (cbs1 ! 3) = log_dir_of (cbs2 ! 3)
         \<and> filename_of (cbs1 ! 4) = filename_of (cbs2 ! 4)
         \<and> mode_of (cbs1 ! 0) = mode_of (cbs2 ! 0)"
proof -
  have rd: "run_dir_at run_name w1 = run_dir_at run_name w2"
    using assms(1) by (simp add: run_dir_at_def)
  have "callbacks_at run_name monitor patience w1 = callbacks_at run_name monitor patience w2"
    by (simp add: callbacks_at_def rd)
  then have "cbs1 = cbs2"
    using standard_callbacks_Inr [OF assms(2)] standard_callbacks_Inr [OF assms(3)] by simp
  then show ?thesis using rd by simp
qed

theorem deterministic_given_instant_witness:
  "timestamp_at fresh_world = timestamp_at rerun_world
   \<and> fs fresh_world \<noteq> fs rerun_world
   \<and> fst (standard_callbacks ''exp1'' ''val_loss'' 7 fresh_world)
       = Inr (callbacks_at ''exp1'' ''val_loss'' 7 fresh_world)
   \<and> fst (standard_callbacks ''exp1'' ''val_loss'' 7 rerun_world)
       = Inr (callbacks_at ''exp1'' ''val_loss'' 7 rerun_world)
   \<and> callbacks_at ''exp1'' ''val_loss'' 7 fresh_world
       = callbacks_at ''exp1'' ''val_loss'' 7 rerun_world
   \<and> run_dir_at ''exp1'' fresh_world = run_dir_at ''exp1'' rerun_world"
proof -
  have t: "timestamp_at fresh_world = timestamp_at rerun_world"
    by (simp add: timestamp_fresh timestamp_rerun)
  have d: "fs fresh_world \<noteq> fs rerun_world"
    by (simp add: fresh_world_def rerun_world_def)
  show ?thesis
    using deterministic_given_instant [OF t standard_callbacks_fresh [of "''val_loss''" 7]
        standard_callbacks_rerun [of "''val_loss''" 7]]
      t d standard_callbacks_fresh [of "''val_loss''" 7]
      standard_callbacks_rerun [of "''val_loss''" 7]
    by simp
qed

section \<open>The CSV log\<close>

text \<open>
  C4. For every run name that is a path segment, that is without separator, and every
  timestamp, the CSV log of the list returned has the path
  \<open>runs/<run_name>_<timestamp>/<run_name>_training_log.csv\<close>, does not append, and
  separates the fields with a comma.
\<close>

theorem csv_log_spec:
  assumes "CHR ''/'' \<notin> set run_name"
    and "fst (standard_callbacks run_name monitor patience w) = Inr cbs"
  shows "cbs ! 4 =
           CSVLogger (''runs/'' @ run_name @ ''_'' @ timestamp_at w @ ''/'' @ run_name
                        @ ''_training_log.csv'') False '',''"
proof -
  have n: "\<not> startswith run_name ''/''"
    using assms(1) by (cases run_name) (auto simp: startswith_sep)
  have "cbs ! 4 =
          CSVLogger (path_join (run_dir_at run_name w) [run_name @ ''_training_log.csv''])
            False '',''"
    using standard_callbacks_Inr [OF assms(2)] by (simp add: callbacks_at_def)
  moreover have "path_join (run_dir_at run_name w) [run_name @ ''_training_log.csv'']
                   = run_dir_at run_name w @ ''/'' @ run_name @ ''_training_log.csv''"
    using n by (simp add: csv_path_form)
  moreover have "run_dir_at run_name w = ''runs/'' @ run_name @ ''_'' @ timestamp_at w"
    using n by (simp add: run_dir_form)
  ultimately show ?thesis by simp
qed

text \<open>The example of the specification: \<open>exp1\<close> at 2024-01-01 00:00:00.\<close>

theorem csv_log_spec_witness:
  "CHR ''/'' \<notin> set ''exp1''
   \<and> timestamp_at fresh_world = ''20240101_000000''
   \<and> fst (standard_callbacks ''exp1'' ''val_loss'' 7 fresh_world)
       = Inr (callbacks_at ''exp1'' ''val_loss'' 7 fresh_world)
   \<and> callbacks_at ''exp1'' ''val_loss'' 7 fresh_world ! 4
       = CSVLogger ''runs/exp1_20240101_000000/exp1_training_log.csv'' False '',''
   \<and> filename_of (callbacks_at ''exp1'' ''val_loss'' 7 fresh_world ! 4)
       = ''runs/exp1_20240101_000000/exp1_training_log.csv''
   \<and> \<not> append_of (callbacks_at ''exp1'' ''val_loss'' 7 fresh_world ! 4)
   \<and> separator_of (callbacks_at ''exp1'' ''val_loss'' 7 fresh_world ! 4) = '',''"
proof -
  have h: "CHR ''/'' \<notin> set ''exp1''" by simp
  have a: "callbacks_at ''exp1'' ''val_loss'' 7 fresh_world ! 4
             = CSVLogger ''runs/exp1_20240101_000000/exp1_training_log.csv'' False '',''"
    using csv_log_spec [OF h standard_callbacks_fresh [of "''val_loss''" 7]]
    by (simp add: timestamp_fresh)
  show ?thesis
    using a h timestamp_fresh standard_callbacks_fresh [of "''val_loss''" 7]
    by simp
qed

section \<open>The status lines\<close>




section \<open>The creation of the directories\<close>




end
